theory Spec2Isabelle
  imports Complex_Main
begin

section \<open>JavaScript values, thrown values and effects\<close>

text \<open>
  The helpers of \<^verbatim>\<open>tsc-options\<close> are generic over the values they carry, except
  \<^verbatim>\<open>toOptional\<close>, which tests its callback's result with \<^verbatim>\<open>if (result)\<close> and so depends
  on the language's coercion of a value to a boolean. The values that coercion
  distinguishes are modelled by \<open>jsval\<close>: a number is a real (both zeros are the real 0),
  with NaN and the two infinities apart; an object (array, function) is a list of
  properties.
\<close>

datatype jsval =
    JUndefined
  | JNull
  | JBool bool
  | JNum real
  | JNaN
  | JInfinity bool
  | JBigInt int
  | JStr string
  | JObj "(string \<times> jsval) list"

text \<open>The coercion \<^verbatim>\<open>ToBoolean\<close> applied by \<^verbatim>\<open>if (result)\<close>.\<close>

fun truthy :: "jsval \<Rightarrow> bool" where
  "truthy JUndefined = False"
| "truthy JNull = False"
| "truthy (JBool b) = b"
| "truthy (JNum x) = (x \<noteq> 0)"
| "truthy JNaN = False"
| "truthy (JInfinity s) = True"
| "truthy (JBigInt n) = (n \<noteq> 0)"
| "truthy (JStr s) = (s \<noteq> [])"
| "truthy (JObj ps) = True"

text \<open>
  What a \<^verbatim>\<open>throw\<close> or a rejected promise carries: an \<^verbatim>\<open>Error\<close> object with its message
  (\<^verbatim>\<open>new Error(message)\<close>), one of the platform's error classes, or any other value
  (\<^verbatim>\<open>Promise.reject("x")\<close>).
\<close>

datatype thrown =
    Error string
  | TypeError string
  | SyntaxError string
  | Thrown jsval

text \<open>
  A call of a JavaScript function runs in a world \<open>'w\<close> (everything a side effect can
  change), either throws or returns, and leaves a new world. A callback with one
  parameter is a function into \<open>('w, 'a) js\<close>.
\<close>

type_synonym ('w, 'a) js = "'w \<Rightarrow> (thrown + 'a) \<times> 'w"

text \<open>
  A promise, seen by the code that awaits it: it is fulfilled with a value, rejected
  with a reason, or never settles (then the awaiting function never resumes).
\<close>

datatype 'a promise = Fulfilled 'a | Rejected thrown | Pending

section \<open>The Option container (\<^verbatim>\<open>types.ts\<close>)\<close>

text \<open>
  \<^verbatim>\<open>type None = { type: "none" }\<close>, \<^verbatim>\<open>type Some<T> = { type: "some"; value: T }\<close>,
  \<^verbatim>\<open>type Option<T> = None | Some<T>\<close>: a tagged union with the discriminant \<^verbatim>\<open>type\<close>.
\<close>

datatype 'a Option = NoneT | SomeT 'a

text \<open>\<^verbatim>\<open>export const some = <T>(value: T): Some<T> => ({ type: "some", value })\<close>\<close>

definition some :: "'a \<Rightarrow> 'a Option" where
  "some v = SomeT v"

text \<open>\<^verbatim>\<open>export const none = { type: "none" }\<close>\<close>

definition none :: "'a Option" where
  "none = NoneT"

section \<open>Safe invocation wrappers\<close>

text \<open>
  \<^verbatim>\<open>OptionalCatch(fn)\<close>: \<^verbatim>\<open>try { return { type: "some", value: fn() } }
  catch (e) { return { type: "none" } }\<close>.
\<close>

definition OptionalCatch :: "('w, 'a) js \<Rightarrow> ('w, 'a Option) js" where
  "OptionalCatch fn w =
     (case fn w of
        (Inr v, w') \<Rightarrow> (Inr (SomeT v), w')
      | (Inl e, w') \<Rightarrow> (Inr NoneT, w'))"

text \<open>
  \<^verbatim>\<open>optionalResolve(promise)\<close>: \<^verbatim>\<open>try { return some(await promise) }
  catch (e) { return { type: "none" } }\<close>. The result is the promise of the
  \<^verbatim>\<open>async\<close> function.
\<close>

definition optionalResolve :: "'a promise \<Rightarrow> 'a Option promise" where
  "optionalResolve promise =
     (case promise of
        Fulfilled v \<Rightarrow> Fulfilled (some v)
      | Rejected e \<Rightarrow> Fulfilled NoneT
      | Pending \<Rightarrow> Pending)"

text \<open>
  \<^verbatim>\<open>toOptional(fn)\<close> returns the function that calls \<^verbatim>\<open>fn(args)\<close> in a \<^verbatim>\<open>try\<close> block,
  returns \<^verbatim>\<open>some(result)\<close> if \<^verbatim>\<open>result\<close> is truthy and \<^verbatim>\<open>none\<close> otherwise, and
  returns \<^verbatim>\<open>none\<close> from the \<^verbatim>\<open>catch\<close> block.
\<close>

definition toOptional :: "(jsval \<Rightarrow> ('w, jsval) js) \<Rightarrow> jsval \<Rightarrow> ('w, jsval Option) js" where
  "toOptional fn args w =
     (case fn args w of
        (Inr result, w') \<Rightarrow>
          if truthy result then (Inr (some result), w') else (Inr none, w')
      | (Inl err, w') \<Rightarrow> (Inr none, w'))"

text \<open>
  \<^verbatim>\<open>optionalDefined = toOptional((arg: unknown) => arg !== undefined && arg !== null)\<close>.
  The predicate is pure and returns a boolean.
\<close>

definition optionalDefined :: "jsval \<Rightarrow> ('w, jsval Option) js" where
  "optionalDefined =
     toOptional (\<lambda>arg w. (Inr (JBool (arg \<noteq> JUndefined \<and> arg \<noteq> JNull)), w))"

section \<open>Transformation\<close>

text \<open>
  \<^verbatim>\<open>OptionalMap(option, fn)\<close>: \<^verbatim>\<open>if (option.type === "none") return { type: "none" };
  return some(fn(option.value))\<close>. There is no \<^verbatim>\<open>try\<close> block: what \<^verbatim>\<open>fn\<close> throws
  leaves the function.
\<close>

definition OptionalMap :: "'a Option \<Rightarrow> ('a \<Rightarrow> ('w, 'b) js) \<Rightarrow> ('w, 'b Option) js" where
  "OptionalMap option fn w =
     (case option of
        NoneT \<Rightarrow> (Inr NoneT, w)
      | SomeT v \<Rightarrow>
          (case fn v w of
             (Inl e, w') \<Rightarrow> (Inl e, w')
           | (Inr r, w') \<Rightarrow> (Inr (some r), w')))"

section \<open>Unwrapping\<close>

text \<open>
  \<^verbatim>\<open>unwrap(option)\<close>: \<^verbatim>\<open>if (option.type === "none") throw new Error("Cannot unwrap None");
  return option.value\<close>.
\<close>

definition unwrap :: "'a Option \<Rightarrow> thrown + 'a" where
  "unwrap option =
     (case option of
        NoneT \<Rightarrow> Inl (Error ''Cannot unwrap None'')
      | SomeT v \<Rightarrow> Inr v)"

text \<open>
  \<^verbatim>\<open>unwrapOr(opt, fallback)\<close>: \<^verbatim>\<open>if (opt.type === "some") return opt.value;
  return fallback\<close>.
\<close>

definition unwrapOr :: "'a Option \<Rightarrow> 'a \<Rightarrow> thrown + 'a" where
  "unwrapOr opt fallback =
     (case opt of
        SomeT v \<Rightarrow> Inr v
      | NoneT \<Rightarrow> Inr fallback)"

text \<open>
  \<^verbatim>\<open>unwrapExpect(opt, message)\<close>: \<^verbatim>\<open>if (opt.type === "some") return opt.value;
  throw new Error(message)\<close>.
\<close>

definition unwrapExpect :: "'a Option \<Rightarrow> string \<Rightarrow> thrown + 'a" where
  "unwrapExpect opt message =
     (case opt of
        SomeT v \<Rightarrow> Inr v
      | NoneT \<Rightarrow> Inl (Error message))"

section \<open>HTTP request helper\<close>

text \<open>
  \<^verbatim>\<open>types.ts\<close> declares \<^verbatim>\<open>type Headers = Record<string, string>\<close> and
  \<^verbatim>\<open>type Request = { url: string; headers: Headers; method?: string; body?: string }\<close>,
  and the README documents \<^verbatim>\<open>fetchWithOption\<close> with a request of that shape. The file
  that defines \<^verbatim>\<open>fetchWithOption\<close> imports only \<^verbatim>\<open>Some\<close> and \<^verbatim>\<open>Option\<close> from
  \<^verbatim>\<open>./types\<close>, so the \<^verbatim>\<open>Request\<close> of its parameter is the platform's class of that
  name, whose \<^verbatim>\<open>headers\<close> is an instance of the platform's \<^verbatim>\<open>Headers\<close> class. The
  function can therefore receive either: the value of \<^verbatim>\<open>request.headers\<close> is a plain
  object whose own enumerable properties are the headers, or a \<^verbatim>\<open>Headers\<close> instance,
  which keeps its list of headers in an internal slot and has no own enumerable
  property. Keys of a plain object are compared as JavaScript strings, exactly.
\<close>

datatype headers_value =
    HeadersRecord "string \<rightharpoonup> string"
  | HeadersInstance "(string \<times> string) list"

text \<open>
  What the object spread \<^verbatim>\<open>...request.headers\<close> copies: the own enumerable
  properties of the value.
\<close>

fun spread :: "headers_value \<Rightarrow> (string \<rightharpoonup> string)" where
  "spread (HeadersRecord m) = m"
| "spread (HeadersInstance hs) = Map.empty"

text \<open>
  The request, with the properties the function reads or a caller may set. An optional
  property that is absent (and the platform's \<^verbatim>\<open>null\<close> body) is \<open>None\<close>.
\<close>

record Request =
  url :: string
  headers :: headers_value
  "method" :: "string option"
  body :: "string option"

text \<open>
  The second argument of the platform's \<^verbatim>\<open>fetch\<close>. Of the platform's optional
  properties the model keeps the three a \<open>Request\<close> could fill; \<open>init_body = None\<close> is an
  object without the property \<^verbatim>\<open>body\<close>.
\<close>

record RequestInit =
  init_method :: "string option"
  init_headers :: "string \<rightharpoonup> string"
  init_body :: "string option"

text \<open>
  What the helper reads of the platform's response: the flag \<^verbatim>\<open>response.ok\<close> (the
  platform sets it when the status is in the success range), \<^verbatim>\<open>response.status\<close>, and
  the promise that \<^verbatim>\<open>response.json()\<close> returns.
\<close>

record 'd Response =
  ok :: bool
  status :: nat
  json :: "'d promise"

text \<open>The decimal digits of a status code, as the template literal prints it.\<close>

fun decimal :: "nat \<Rightarrow> string" where
  "decimal n =
     (if n < 10 then [char_of (48 + n)]
      else decimal (n div 10) @ [char_of (48 + n mod 10)])"

declare decimal.simps [simp del]

text \<open>
  The object literal passed to \<^verbatim>\<open>fetch\<close>:
  \<^verbatim>\<open>{ method: request.method, headers: { "Content-Type": "application/json", ...request.headers } }\<close>.
  The spread copies the caller's properties after the default one, so it overwrites
  the default where the keys are equal.
\<close>

definition fetchInit :: "Request \<Rightarrow> RequestInit" where
  "fetchInit request =
     \<lparr> init_method = method request,
       init_headers = [''Content-Type'' \<mapsto> ''application/json''] ++ spread (headers request),
       init_body = None \<rparr>"

text \<open>
  The \<^verbatim>\<open>try\<close> block of \<^verbatim>\<open>fetchWithOption\<close>, with the platform's \<^verbatim>\<open>fetch\<close> as a
  parameter: \<^verbatim>\<open>const response = await fetch(request.url, {...});
  if (!response.ok) throw new Error(`HTTP error! Status: ${response.status}`);
  const data = await response.json(); return some(data)\<close>.
  \<open>Rejected\<close> is a throw out of the block.
\<close>

definition fetchWithOption_try ::
  "(string \<Rightarrow> RequestInit \<Rightarrow> 'w \<Rightarrow> 'd Response promise \<times> 'w) \<Rightarrow> Request \<Rightarrow> 'w
     \<Rightarrow> 'd Option promise \<times> 'w" where
  "fetchWithOption_try fetch request w =
     (case fetch (url request) (fetchInit request) w of
        (Rejected e, w') \<Rightarrow> (Rejected e, w')
      | (Pending, w') \<Rightarrow> (Pending, w')
      | (Fulfilled response, w') \<Rightarrow>
          if \<not> ok response
          then (Rejected (Error (''HTTP error! Status: '' @ decimal (status response))), w')
          else (case json response of
                  Fulfilled data \<Rightarrow> (Fulfilled (some data), w')
                | Rejected e \<Rightarrow> (Rejected e, w')
                | Pending \<Rightarrow> (Pending, w')))"

text \<open>
  \<^verbatim>\<open>fetchWithOption(request)\<close>: the \<^verbatim>\<open>try\<close> block and its handler
  \<^verbatim>\<open>catch (error) { return none as Option<T> }\<close>. The result is the promise of the
  \<^verbatim>\<open>async\<close> function.
\<close>

definition fetchWithOption ::
  "(string \<Rightarrow> RequestInit \<Rightarrow> 'w \<Rightarrow> 'd Response promise \<times> 'w) \<Rightarrow> Request \<Rightarrow> 'w
     \<Rightarrow> 'd Option promise \<times> 'w" where
  "fetchWithOption fetch request w =
     (case fetchWithOption_try fetch request w of
        (Rejected error, w') \<Rightarrow> (Fulfilled none, w')
      | (Fulfilled opt, w') \<Rightarrow> (Fulfilled opt, w')
      | (Pending, w') \<Rightarrow> (Pending, w'))"

section \<open>Test doubles\<close>

text \<open>
  A callback that counts its invocations: the world is paired with a counter, which
  every call of the callback increments.
\<close>

definition counting :: "('a \<Rightarrow> ('w, 'b) js) \<Rightarrow> 'a \<Rightarrow> (nat \<times> 'w, 'b) js" where
  "counting fn x = (\<lambda>(n, w). case fn x w of (r, w') \<Rightarrow> (r, (Suc n, w')))"

text \<open>
  An HTTP client that records its calls: the world is paired with the list of the
  arguments of the calls made so far.
\<close>

definition recording ::
  "(string \<Rightarrow> RequestInit \<Rightarrow> 'w \<Rightarrow> 'r \<times> 'w) \<Rightarrow> string \<Rightarrow> RequestInit
     \<Rightarrow> (string \<times> RequestInit) list \<times> 'w \<Rightarrow> 'r \<times> ((string \<times> RequestInit) list \<times> 'w)" where
  "recording fetch u i = (\<lambda>(calls, w). case fetch u i w of (r, w') \<Rightarrow> (r, (calls @ [(u, i)], w')))"

section \<open>Properties of unwrapping\<close>

text \<open>
  C8: \<open>unwrap\<close> returns the contained value of every \<open>Some\<close> and fails on \<open>None\<close> with an
  error whose message is exactly "Cannot unwrap None"; \<open>unwrapExpect\<close> returns the
  contained value of every \<open>Some\<close> and fails on \<open>None\<close> with an error whose message is
  exactly the caller's; each of them raises if and only if its input is \<open>None\<close>.
\<close>

theorem unwrap_unwrapExpect_spec:
  "unwrap (some v) = Inr v
   \<and> unwrap (none :: 'a Option) = Inl (Error ''Cannot unwrap None'')
   \<and> unwrapExpect (some v) msg = Inr v
   \<and> unwrapExpect (none :: 'a Option) msg = Inl (Error msg)
   \<and> isl (unwrap opt) = (opt = none)
   \<and> isl (unwrapExpect opt msg) = (opt = none)"
  by (cases opt) (simp_all add: unwrap_def unwrapExpect_def some_def none_def)

text \<open>
  C9: \<open>unwrapOr (some v) fallback\<close> is \<open>v\<close>, \<open>unwrapOr none fallback\<close> is the fallback,
  and \<open>unwrapOr\<close> fails on no Option.
\<close>

theorem unwrapOr_spec:
  "unwrapOr (some v) fallback = Inr v
   \<and> unwrapOr none fallback = Inr fallback
   \<and> \<not> isl (unwrapOr opt fallback)"
  by (cases opt) (simp_all add: unwrapOr_def some_def none_def)

section \<open>Properties of the safe invocation wrappers\<close>

text \<open>
  C10: \<open>OptionalCatch\<close> (catchToOption) returns \<open>Some\<close> of the function's return value
  when the function returns normally and \<open>None\<close> when it raises, whatever the error;
  \<open>optionalResolve\<close> (resolveToOption) settles to \<open>Some\<close> of the resolved value when
  the promise is fulfilled and to \<open>None\<close> when it is rejected, whatever the reason.
\<close>

theorem OptionalCatch_optionalResolve_spec:
  "(fn w = (Inr v, w') \<longrightarrow> OptionalCatch fn w = (Inr (some v), w'))
   \<and> (fn w = (Inl e, w') \<longrightarrow> OptionalCatch fn w = (Inr none, w'))
   \<and> optionalResolve (Fulfilled x) = Fulfilled (some x)
   \<and> optionalResolve (Rejected reason :: 'c promise) = Fulfilled none"
  by (simp add: OptionalCatch_def optionalResolve_def some_def none_def)

theorem OptionalCatch_optionalResolve_witness:
  "OptionalCatch (\<lambda>w. (Inr (JNum 42), Suc w)) 0 = (Inr (some (JNum 42)), Suc 0)
   \<and> OptionalCatch (\<lambda>w. (Inl (Error ''x'') :: thrown + jsval, Suc w)) 0 = (Inr none, Suc 0)
   \<and> optionalResolve (Fulfilled (JNum 5)) = Fulfilled (some (JNum 5))
   \<and> optionalResolve (Rejected (Thrown (JStr ''x'')) :: jsval promise) = Fulfilled none"
  using
    OptionalCatch_optionalResolve_spec
      [where fn = "\<lambda>w. (Inr (JNum 42), Suc w)" and w = 0 and v = "JNum 42" and w' = "Suc 0"
         and x = "JNum 5" and reason = "Thrown (JStr ''x'')" and 'c = jsval]
    OptionalCatch_optionalResolve_spec
      [where fn = "\<lambda>w. (Inl (Error ''x'') :: thrown + jsval, Suc w)" and w = 0
         and e = "Error ''x''" and w' = "Suc 0" and x = "JNum 5" and 'c = jsval]
  by simp

text \<open>
  C5: for every function \<open>fn\<close> and argument \<open>x\<close>, \<open>toOptional fn x\<close> returns
  \<open>some\<close> of the value of \<open>fn x\<close> when that value is truthy, and returns \<open>none\<close> both
  when the value is falsy and when \<open>fn\<close> throws.
\<close>

theorem toOptional_spec:
  "(fn x w = (Inr r, w') \<and> truthy r \<longrightarrow> toOptional fn x w = (Inr (some r), w'))
   \<and> (fn x w = (Inr r, w') \<and> \<not> truthy r \<longrightarrow> toOptional fn x w = (Inr none, w'))
   \<and> (fn x w = (Inl e, w') \<longrightarrow> toOptional fn x w = (Inr none, w'))"
  by (simp add: toOptional_def)

theorem toOptional_witness:
  "toOptional (\<lambda>x w. (Inr (JStr ''ab''), Suc w)) JNull 0 = (Inr (some (JStr ''ab'')), Suc 0)
   \<and> toOptional (\<lambda>x w. (Inr (JNum 0), Suc w)) JNull 0 = (Inr none, Suc 0)
   \<and> toOptional (\<lambda>x w. (Inl (Error ''x''), Suc w)) JNull 0 = (Inr none, Suc 0)"
  using
    toOptional_spec
      [where fn = "\<lambda>x w. (Inr (JStr ''ab''), Suc w)" and x = JNull and w = 0
         and r = "JStr ''ab''" and w' = "Suc 0"]
    toOptional_spec
      [where fn = "\<lambda>x w. (Inr (JNum 0), Suc w)" and x = JNull and w = 0
         and r = "JNum 0" and w' = "Suc 0"]
    toOptional_spec
      [where fn = "\<lambda>x w. (Inl (Error ''x''), Suc w)" and x = JNull and w = 0
         and e = "Error ''x''" and w' = "Suc 0"]
  by simp

text \<open>
  C1, as the specification states it, fails: \<open>optionalDefined\<close> applied to the number 0
  does not return \<open>none\<close>. The predicate \<^verbatim>\<open>arg !== undefined && arg !== null\<close> is true of
  0, and it is the predicate's result, not the argument, that \<open>toOptional\<close> tests.
\<close>

theorem optionalDefined_zero_counterexample:
  "optionalDefined (JNum 0) () \<noteq> (Inr none, ())"
  by (simp add: optionalDefined_def toOptional_def some_def none_def)

text \<open>
  C1, amended: \<open>optionalDefined\<close> applied to null returns \<open>none\<close>, applied to undefined
  returns \<open>none\<close>, applied to 0 returns \<open>some\<close> of the boolean true, and applied to the
  string "x" returns \<open>some\<close> of the boolean true; the result is \<open>none\<close> exactly for the
  null and the undefined input, and \<open>some\<close> of true for every other input, falsy
  or not.
\<close>

theorem optionalDefined_spec:
  "optionalDefined JNull w = (Inr none, w)
   \<and> optionalDefined JUndefined w = (Inr none, w)
   \<and> optionalDefined (JNum 0) w = (Inr (some (JBool True)), w)
   \<and> optionalDefined (JStr ''x'') w = (Inr (some (JBool True)), w)
   \<and> optionalDefined arg w =
       (Inr (if arg = JUndefined \<or> arg = JNull then none else some (JBool True)), w)"
  by (simp add: optionalDefined_def toOptional_def)

section \<open>Properties of the transformation\<close>

text \<open>
  C6: for every function \<open>fn\<close>, \<open>OptionalMap none fn\<close> returns \<open>None\<close> and does not
  invoke \<open>fn\<close>: the world is left as it was whatever \<open>fn\<close> would do to it, and a
  counting double of \<open>fn\<close> keeps its count. For every value \<open>v\<close> and pure function
  \<open>f\<close>, \<open>OptionalMap (some v) f\<close> is \<open>some (f v)\<close>.
\<close>

theorem OptionalMap_spec:
  "OptionalMap none fn w = (Inr none, w)
   \<and> OptionalMap none (counting fn) (n, w) = (Inr none, (n, w))
   \<and> OptionalMap (some v) (\<lambda>x w. (Inr (f x), w)) w = (Inr (some (f v)), w)"
  by (simp add: OptionalMap_def some_def none_def)

text \<open>
  C7: if the mapping function throws when applied to the value of a \<open>Some\<close>,
  \<open>OptionalMap\<close> throws the same value to its caller: it catches nothing.
\<close>

theorem OptionalMap_throw_propagates:
  "fn v w = (Inl e, w') \<Longrightarrow> OptionalMap (some v) fn w = (Inl e, w')"
  by (simp add: OptionalMap_def some_def)

theorem OptionalMap_throw_propagates_witness:
  "OptionalMap (some (JNum 1)) (\<lambda>x w. (Inl (Error ''boom'') :: thrown + jsval, Suc w)) 0
     = (Inl (Error ''boom''), Suc 0)"
  using OptionalMap_throw_propagates
      [where fn = "\<lambda>x w. (Inl (Error ''boom'') :: thrown + jsval, Suc w)" and v = "JNum 1"
         and w = 0 and e = "Error ''boom''" and w' = "Suc 0"]
  by simp

lemma counting_counts:
  "fst (snd (OptionalMap (some v) (counting fn) (n, w))) = Suc n"
  by (simp add: OptionalMap_def some_def counting_def split: prod.splits sum.splits)

section \<open>Properties of the HTTP request helper\<close>

lemma fetchWithOption_recording_calls:
  "fst (snd (fetchWithOption (recording fetch) request (calls, w)))
     = calls @ [(url request, fetchInit request)]"
  by (simp add: fetchWithOption_def fetchWithOption_try_def recording_def
      split: prod.splits promise.splits)

lemma fetchInit_body_update: "fetchInit (request\<lparr>body := b\<rparr>) = fetchInit request"
  by (simp add: fetchInit_def)

text \<open>
  Inside the \<^verbatim>\<open>try\<close> block a response that is not flagged as a success raises the
  error whose message ends with the status code.
\<close>

lemma decimal_examples: "decimal 0 = ''0'' \<and> decimal 200 = ''200'' \<and> decimal 500 = ''500''"
  by code_simp

lemma fetchWithOption_try_http_error:
  "fetch (url request) (fetchInit request) w = (Fulfilled response, w') \<Longrightarrow> \<not> ok response \<Longrightarrow>
   fetchWithOption_try fetch request w
     = (Rejected (Error (''HTTP error! Status: '' @ decimal (status response))), w')"
  by (simp add: fetchWithOption_try_def)




text \<open>
  For a request whose \<^verbatim>\<open>headers\<close> is a plain object, the headers passed to the client
  are the default header merged with the caller's, and the caller's value wins where
  the keys are equal.
\<close>

lemma fetchWithOption_headers_record:
  "fst (snd (fetchWithOption (recording fetch) (request\<lparr>headers := HeadersRecord m\<rparr>) (calls, w)))
     = calls @ [(url request,
                 \<lparr> init_method = method request,
                   init_headers = [''Content-Type'' \<mapsto> ''application/json''] ++ m,
                   init_body = None \<rparr>)]
   \<and> ([''Content-Type'' \<mapsto> ''application/json''] ++ m) k =
       (case m k of
          Some v \<Rightarrow> Some v
        | None \<Rightarrow> if k = ''Content-Type'' then Some ''application/json'' else None)"
  by (simp add: fetchWithOption_recording_calls fetchInit_def map_add_def split: option.splits)

text \<open>
  C3 asks that, for every request, the headers passed to the client are the default
  header \<open>Content-Type: application/json\<close> merged with the caller's headers. The code
  does not do that for a request of its declared parameter type: the spread copies
  nothing from a \<^verbatim>\<open>Headers\<close> instance, so the client receives the default header
  alone, whatever headers the caller supplied. At the platform request for
  \<^verbatim>\<open>https://api.example.com\<close> with the header \<open>accept: text/plain\<close>, the call has no
  \<open>accept\<close> header.
\<close>

theorem fetchWithOption_headers_platform_request:
  "fst (snd (fetchWithOption (recording fetch) (request\<lparr>headers := HeadersInstance hs\<rparr>) (calls, w)))
     = calls @ [(url request,
                 \<lparr> init_method = method request,
                   init_headers = [''Content-Type'' \<mapsto> ''application/json''],
                   init_body = None \<rparr>)]
   \<and> map (\<lambda>(u, i). (init_headers i ''accept'', init_headers i ''Content-Type''))
       (fst (snd (fetchWithOption (recording (\<lambda>u i w. (Pending :: jsval Response promise, w)))
          \<lparr>url = ''https://api.example.com'',
            headers = HeadersInstance [(''accept'', ''text/plain'')],
            method = Some ''GET'', body = None\<rparr> ([], ()))))
     = [(None, Some ''application/json'')]"
  by (simp add: fetchWithOption_recording_calls fetchInit_def)

text \<open>
  C4: \<open>fetchWithOption\<close> does not forward the request's \<open>body\<close>: the client is called
  once, with the url, the method and the merged headers and without a body, and two
  requests that differ only in \<open>body\<close> make the same call and give the same result.
\<close>

theorem fetchWithOption_ignores_body:
  "fst (snd (fetchWithOption (recording fetch) request (calls, w)))
     = calls @ [(url request,
                 \<lparr> init_method = method request,
                   init_headers = [''Content-Type'' \<mapsto> ''application/json''] ++ spread (headers request),
                   init_body = None \<rparr>)]
   \<and> fetchWithOption fetch' (request\<lparr>body := b\<rparr>) w' = fetchWithOption fetch' request w'"
proof (rule conjI)
  show "fst (snd (fetchWithOption (recording fetch) request (calls, w)))
     = calls @ [(url request,
                 \<lparr> init_method = method request,
                   init_headers = [''Content-Type'' \<mapsto> ''application/json''] ++ spread (headers request),
                   init_body = None \<rparr>)]"
    by (simp add: fetchWithOption_recording_calls fetchInit_def)
  show "fetchWithOption fetch' (request\<lparr>body := b\<rparr>) w' = fetchWithOption fetch' request w'"
    by (simp add: fetchWithOption_def fetchWithOption_try_def fetchInit_body_update)
qed

end
